theory Spec2Isabelle
  imports Complex_Main "HOL-Library.AList" "HOL-Library.Sublist"
begin

section \<open>Steam friend adder: a shallow embedding of steam\_friend\_adder.py\<close>

text \<open>
  The theory follows the class \<^verbatim>\<open>SteamFriendAdder\<close> method by method. Everything the
  methods do beyond returning a value is explicit: the attributes of the object, the
  clock read by \<^verbatim>\<open>time.time()\<close> and advanced by \<^verbatim>\<open>time.sleep\<close>, and the list of HTTP
  requests issued are fields of one state record that every method takes and returns.
  The answers of the network and of the file system are parameters. Log lines are not
  modelled: no decision of the program depends on them.
\<close>

subsection \<open>Strings\<close>

text \<open>
  A Python \<^verbatim>\<open>str\<close> is a sequence of code points. It is modelled as a \<^typ>\<open>string\<close>
  in which every \<^typ>\<open>char\<close> stands for one code point below 256, so that
  \<^const>\<open>length\<close> counts what \<^verbatim>\<open>len\<close> counts. On that range \<^verbatim>\<open>str.isspace\<close> holds of
  the code points 9 to 13, 28 to 32, 133 and 160, and \<^verbatim>\<open>str.isdigit\<close> of the ten
  decimal digits and of the superscript digits 178, 179 and 185.
\<close>

definition isspace_char :: "char \<Rightarrow> bool" where
  "isspace_char c =
     (let n = (of_char c :: nat)
      in (9 \<le> n \<and> n \<le> 13) \<or> (28 \<le> n \<and> n \<le> 32) \<or> n = 133 \<or> n = 160)"

definition isdigit_char :: "char \<Rightarrow> bool" where
  "isdigit_char c =
     (let n = (of_char c :: nat)
      in (48 \<le> n \<and> n \<le> 57) \<or> n = 178 \<or> n = 179 \<or> n = 185)"

text \<open>\<^verbatim>\<open>s.strip()\<close>: leading and trailing whitespace removed.\<close>

definition strip :: "string \<Rightarrow> string" where
  "strip s = rev (dropWhile isspace_char (rev (dropWhile isspace_char s)))"

text \<open>\<^verbatim>\<open>s.isdigit()\<close>: at least one character, and every character a digit.\<close>

definition isdigit :: "string \<Rightarrow> bool" where
  "isdigit s = (s \<noteq> [] \<and> list_all isdigit_char s)"

text \<open>\<^verbatim>\<open>s.startswith(p)\<close> and the substring test \<^verbatim>\<open>p in s\<close>.\<close>

definition startswith :: "string \<Rightarrow> string \<Rightarrow> bool" where
  "startswith s p = (take (length p) s = p)"

fun str_in :: "string \<Rightarrow> string \<Rightarrow> bool" where
  "str_in p [] = (p = [])"
| "str_in p (c # cs) = (startswith (c # cs) p \<or> str_in p cs)"

text \<open>\<^verbatim>\<open>str(n)\<close> for a length: the decimal numeral of a natural number.\<close>

definition digit_char :: "nat \<Rightarrow> char" where
  "digit_char d = char_of (48 + d)"

fun str_nat :: "nat \<Rightarrow> string" where
  "str_nat n = (if n < 10 then [digit_char n] else str_nat (n div 10) @ [digit_char (n mod 10)])"

text \<open>\<^verbatim>\<open>str(n)\<close> for a status code, which is a Python \<^verbatim>\<open>int\<close>.\<close>

definition str_int :: "int \<Rightarrow> string" where
  "str_int i = (if i < 0 then CHR ''-'' # str_nat (nat (- i)) else str_nat (nat i))"

subsection \<open>The object and its world\<close>

text \<open>
  \<^verbatim>\<open>__init__\<close> stores the API key and the account's own id, starts with an empty list
  of request times and sets \<^verbatim>\<open>max_requests_per_minute\<close> to 30; nothing assigns that
  attribute again, so it is a constant here. Instants are the values of \<^verbatim>\<open>time.time()\<close>,
  taken as exact real numbers of seconds on a synthetic clock that only sleeping (and the
  caller's own pauses) advances.
\<close>

datatype request = Get (url: string) (params: "(string \<times> string) list")

record state =
  api_key :: string
  steam_id :: string
  request_times :: "real list"
  clock :: real
  requests :: "request list"

definition max_requests_per_minute :: nat where
  "max_requests_per_minute = 30"

definition init :: "string \<Rightarrow> string \<Rightarrow> real \<Rightarrow> state" where
  "init key sid t0 =
     \<lparr>api_key = key, steam_id = sid, request_times = [], clock = t0, requests = []\<rparr>"

definition sleep :: "real \<Rightarrow> state \<Rightarrow> state" where
  "sleep d s = s\<lparr>clock := clock s + d\<rparr>"

subsection \<open>The rate limiter\<close>

text \<open>
  \<^verbatim>\<open>_rate_limit_check\<close>: read the clock, drop the times that are 60 seconds old or
  older, and when the limit is reached sleep until the oldest remaining time is 60
  seconds old and clear the list. The time recorded is the one read on entry. The index
  \<^verbatim>\<open>request_times[0]\<close> is read only when the list holds at least 30 times.
\<close>

definition rate_limit_check :: "state \<Rightarrow> state" where
  "rate_limit_check s =
     (let current_time = clock s;
          s1 = s\<lparr>request_times := filter (\<lambda>t. current_time - t < 60) (request_times s)\<rparr>;
          s2 = (if length (request_times s1) \<ge> max_requests_per_minute then
                  (let wait_time = 60 - (current_time - hd (request_times s1))
                   in if wait_time > 0
                      then (sleep wait_time s1)\<lparr>request_times := []\<rparr>
                      else s1)
                else s1)
      in s2\<lparr>request_times := request_times s2 @ [current_time]\<rparr>)"






subsection \<open>Exceptions, JSON values and the network\<close>

text \<open>
  The \<^verbatim>\<open>except\<close> clauses of the source tell three classes of exception apart:
  \<^verbatim>\<open>requests.exceptions.Timeout\<close>, any other \<^verbatim>\<open>RequestException\<close>, and any other
  \<^verbatim>\<open>Exception\<close>. The last two carry the text that \<^verbatim>\<open>str(e)\<close> returns. For an error
  raised by the interpreter itself that text is abbreviated to the name of its class.
\<close>

datatype exc = Timeout | RequestException string | OtherException string

text \<open>
  The value returned by \<^verbatim>\<open>response.json()\<close>. An object is the parsed \<^verbatim>\<open>dict\<close>, given
  as an association list that is read with \<^const>\<open>map_of\<close>.
\<close>

datatype json =
    JNull
  | JBool bool
  | JNum int
  | JStr string
  | JArr "json list"
  | JObj "(string \<times> json) list"

text \<open>\<^verbatim>\<open>k in v\<close> for a string \<open>k\<close>: key of a dict, element of a list, substring of a string.\<close>

fun py_in :: "string \<Rightarrow> json \<Rightarrow> exc + bool" where
  "py_in k (JObj kvs) = Inr (map_of kvs k \<noteq> None)"
| "py_in k (JArr xs) = Inr (JStr k \<in> set xs)"
| "py_in k (JStr s) = Inr (str_in k s)"
| "py_in k v = Inl (OtherException ''TypeError'')"

text \<open>\<^verbatim>\<open>v[k]\<close> for a string \<open>k\<close>: only a dict can be indexed by a string.\<close>

fun py_getitem :: "json \<Rightarrow> string \<Rightarrow> exc + json" where
  "py_getitem (JObj kvs) k =
     (case map_of kvs k of None \<Rightarrow> Inl (OtherException ''KeyError'') | Some v \<Rightarrow> Inr v)"
| "py_getitem v k = Inl (OtherException ''TypeError'')"

text \<open>\<^verbatim>\<open>len(v)\<close>.\<close>

fun py_len :: "json \<Rightarrow> exc + nat" where
  "py_len (JObj kvs) = Inr (length (remdups (map fst kvs)))"
| "py_len (JArr xs) = Inr (length xs)"
| "py_len (JStr s) = Inr (length s)"
| "py_len v = Inl (OtherException ''TypeError'')"

text \<open>\<^verbatim>\<open>for x in v\<close>: the elements of a list, the keys of a dict, the characters of a string.\<close>

fun py_iter :: "json \<Rightarrow> exc + json list" where
  "py_iter (JArr xs) = Inr xs"
| "py_iter (JObj kvs) = Inr (map JStr (remdups (map fst kvs)))"
| "py_iter (JStr s) = Inr (map (\<lambda>c. JStr [c]) s)"
| "py_iter v = Inl (OtherException ''TypeError'')"

text \<open>\<^verbatim>\<open>k1 in data and k2 in data[k1]\<close>, evaluated left to right.\<close>

definition has_nested :: "json \<Rightarrow> string \<Rightarrow> string \<Rightarrow> exc + bool" where
  "has_nested data k1 k2 =
     (case py_in k1 data of
        Inl e \<Rightarrow> Inl e
      | Inr False \<Rightarrow> Inr False
      | Inr True \<Rightarrow>
          (case py_getitem data k1 of
             Inl e \<Rightarrow> Inl e
           | Inr inner \<Rightarrow> py_in k2 inner))"

text \<open>\<^verbatim>\<open>data[k1][k2]\<close>.\<close>

definition get_nested :: "json \<Rightarrow> string \<Rightarrow> string \<Rightarrow> exc + json" where
  "get_nested data k1 k2 =
     (case py_getitem data k1 of
        Inl e \<Rightarrow> Inl e
      | Inr inner \<Rightarrow> py_getitem inner k2)"

text \<open>
  A response has a status code and a body; \<^verbatim>\<open>response.json()\<close> returns the parsed body
  or raises. The network is a parameter: it answers the request from its text and from
  the number of requests issued before it, either with a response or with the exception
  that \<^verbatim>\<open>requests.get\<close> raises.
\<close>

datatype response = Response (status_code: int) (body: "exc + json")

type_synonym network = "nat \<Rightarrow> request \<Rightarrow> exc + response"

definition STEAM_API_BASE :: string where
  "STEAM_API_BASE = ''https://api.steampowered.com''"

definition FRIEND_LIST_ENDPOINT :: string where
  "FRIEND_LIST_ENDPOINT = ''ISteamUser/GetFriendList/v1''"

definition PLAYER_SUMMARIES_ENDPOINT :: string where
  "PLAYER_SUMMARIES_ENDPOINT = ''ISteamUser/GetPlayerSummaries/v2''"

text \<open>\<^verbatim>\<open>requests.get(url, params=params, timeout=10)\<close>: the request is recorded.\<close>

definition http_get :: "network \<Rightarrow> request \<Rightarrow> state \<Rightarrow> (exc + response) \<times> state" where
  "http_get net req s = (net (length (requests s)) req, s\<lparr>requests := requests s @ [req]\<rparr>)"

subsection \<open>Validating an identifier\<close>

text \<open>
  \<^verbatim>\<open>validate_steam_id\<close>, lines 145 to 162: what the body of the \<^verbatim>\<open>try\<close> makes of a
  response, and, lines 164 to 169, what the three handlers return.
\<close>

definition player_summary_outcome :: "response \<Rightarrow> exc + bool \<times> string" where
  "player_summary_outcome r =
     (if status_code r = 403 then Inr (False, ''Invalid API key or insufficient permissions'')
      else if status_code r = 429 then Inr (False, ''Rate limited by Steam API'')
      else if status_code r \<noteq> 200
        then Inr (False, ''API error (status code: '' @ str_int (status_code r) @ '')'')
      else
        (case body r of
           Inl e \<Rightarrow> Inl e
         | Inr data \<Rightarrow>
             (case has_nested data ''response'' ''players'' of
                Inl e \<Rightarrow> Inl e
              | Inr False \<Rightarrow> Inr (False, ''Unexpected API response format'')
              | Inr True \<Rightarrow>
                  (case get_nested data ''response'' ''players'' of
                     Inl e \<Rightarrow> Inl e
                   | Inr players \<Rightarrow>
                       (case py_len players of
                          Inl e \<Rightarrow> Inl e
                        | Inr n \<Rightarrow>
                            if n > 0 then Inr (True, ''Valid'')
                            else Inr (False, ''Steam ID not found''))))))"

definition validate_handler :: "exc \<Rightarrow> bool \<times> string" where
  "validate_handler e =
     (case e of
        Timeout \<Rightarrow> (False, ''Request timeout'')
      | RequestException m \<Rightarrow> (False, ''Network error: '' @ m)
      | OtherException m \<Rightarrow> (False, ''Validation error: '' @ m))"

text \<open>Lines 137 to 141: the request for the player summaries of one id.\<close>

definition player_summaries_request :: "state \<Rightarrow> string \<Rightarrow> request" where
  "player_summaries_request s sid =
     (let url = STEAM_API_BASE @ ''/'' @ PLAYER_SUMMARIES_ENDPOINT;
          params = [(''key'', api_key s), (''steamids'', sid)]
      in Get url params)"

definition validate_steam_id :: "network \<Rightarrow> state \<Rightarrow> string \<Rightarrow> (bool \<times> string) \<times> state" where
  "validate_steam_id net s sid0 =
     (let sid = strip sid0 in
      if sid = [] then ((False, ''Empty Steam ID''), s)
      else if \<not> isdigit sid then ((False, ''Steam ID must be numeric''), s)
      else if length sid \<noteq> 17
        then ((False, ''Steam ID must be 17 digits (got '' @ str_nat (length sid) @ '')''), s)
      else
        (let s1 = rate_limit_check s;
             (answer, s2) = http_get net (player_summaries_request s1 sid) s1
         in (case answer of
               Inl e \<Rightarrow> validate_handler e
             | Inr r \<Rightarrow>
                 (case player_summary_outcome r of
                    Inl e \<Rightarrow> validate_handler e
                  | Inr res \<Rightarrow> res),
             s2)))"

text \<open>
  \<^verbatim>\<open>send_friend_request\<close>: the request itself is a placeholder in the source; the method
  validates the id and reports success when the id is valid.
\<close>

definition send_friend_request :: "network \<Rightarrow> state \<Rightarrow> string \<Rightarrow> (bool \<times> string) \<times> state" where
  "send_friend_request net s target_steam_id =
     (let ((is_valid, validation_msg), s1) = validate_steam_id net s target_steam_id in
      if \<not> is_valid then ((False, ''Validation failed: '' @ validation_msg), s1)
      else ((True, ''Steam ID validated and ready for friend request''), s1))"

subsection \<open>The result dictionary\<close>

text \<open>
  The summary returned by a batch run is a \<^verbatim>\<open>dict\<close> from strings to integers, with a
  string under \<^verbatim>\<open>'error'\<close> when something went wrong: an association list, read with
  \<^const>\<open>map_of\<close> and written with \<^const>\<open>AList.update\<close>.
\<close>

datatype pyval = IntV int | StrV string

type_synonym dict = "(string \<times> pyval) list"

definition new_results :: dict where
  "new_results =
     [(''total'', IntV 0), (''success'', IntV 0), (''failed'', IntV 0),
      (''invalid'', IntV 0), (''skipped'', IntV 0)]"

text \<open>
  \<^verbatim>\<open>results[k] += 1\<close>. The source applies it to the five counters only, which are in
  the dictionary from the start; on any other dictionary the model leaves it unchanged.
\<close>

definition incr :: "string \<Rightarrow> dict \<Rightarrow> dict" where
  "incr k d =
     (case map_of d k of
        Some (IntV n) \<Rightarrow> AList.update k (IntV (n + 1)) d
      | _ \<Rightarrow> d)"

text \<open>The reading of a counter, 0 where the dictionary has none.\<close>

definition counter :: "dict \<Rightarrow> string \<Rightarrow> int" where
  "counter d k = (case map_of d k of Some (IntV n) \<Rightarrow> n | _ \<Rightarrow> 0)"

text \<open>
  Lines 256 to 265 and 430 to 439: the classification of one outcome of
  \<^verbatim>\<open>send_friend_request\<close>, written twice in the source with the same text.
\<close>

definition classify :: "bool \<times> string \<Rightarrow> dict \<Rightarrow> dict" where
  "classify outcome results =
     (if fst outcome then incr ''success'' results
      else if str_in ''Validation failed'' (snd outcome) then incr ''invalid'' results
      else incr ''failed'' results)"

subsection \<open>Processing a file of identifiers\<close>

text \<open>
  The file system is a parameter: for a path it tells whether \<^verbatim>\<open>os.path.exists\<close> holds
  and what opening the file and reading its lines gives, the lines or the text of the
  exception raised.
\<close>

type_synonym filesystem = "string \<Rightarrow> bool \<times> (string + string list)"

text \<open>One iteration of the loop of lines 241 to 268.\<close>

definition process_line :: "network \<Rightarrow> string \<Rightarrow> dict \<times> state \<Rightarrow> dict \<times> state" where
  "process_line net line rs =
     (let (results, s) = rs; sid = strip line in
      if sid = [] \<or> startswith sid ''#'' then (incr ''skipped'' results, s)
      else
        (let results1 = incr ''total'' results;
             (outcome, s1) = send_friend_request net s sid
         in (classify outcome results1, sleep 1 s1)))"

definition process_steam_ids_file ::
    "network \<Rightarrow> filesystem \<Rightarrow> state \<Rightarrow> string \<Rightarrow> dict \<times> state" where
  "process_steam_ids_file net fs s file_path =
     (if \<not> fst (fs file_path) then ([(''error'', StrV ''File not found'')], s)
      else
        (case snd (fs file_path) of
           Inl e \<Rightarrow> (AList.update ''error'' (StrV e) new_results, s)
         | Inr steam_ids \<Rightarrow> fold (process_line net) steam_ids (new_results, s)))"

subsection \<open>Friend lists and candidates\<close>

text \<open>
  \<^verbatim>\<open>friend['steamid']\<close>. The source declares the list of ids as \<^verbatim>\<open>List[str]\<close> and the
  API sends the field as a string; an id of any other JSON type is outside this model,
  which treats it like an entry of the wrong shape.
\<close>

definition steamid_of :: "json \<Rightarrow> exc + string" where
  "steamid_of friend =
     (case py_getitem friend ''steamid'' of
        Inl e \<Rightarrow> Inl e
      | Inr (JStr v) \<Rightarrow> Inr v
      | Inr _ \<Rightarrow> Inl (OtherException ''TypeError''))"

fun steamids_of :: "json list \<Rightarrow> exc + string list" where
  "steamids_of [] = Inr []"
| "steamids_of (friend # friends) =
     (case steamid_of friend of
        Inl e \<Rightarrow> Inl e
      | Inr v \<Rightarrow> (case steamids_of friends of Inl e \<Rightarrow> Inl e | Inr vs \<Rightarrow> Inr (v # vs)))"

definition friend_list_outcome :: "response \<Rightarrow> exc + bool \<times> string list \<times> string" where
  "friend_list_outcome r =
     (if status_code r = 401 then Inr (False, [], ''Invalid API key'')
      else if status_code r = 403 then Inr (False, [], ''Friend list is private or user not found'')
      else if status_code r = 429 then Inr (False, [], ''Rate limited by Steam API'')
      else if status_code r \<noteq> 200
        then Inr (False, [], ''API error (status code: '' @ str_int (status_code r) @ '')'')
      else
        (case body r of
           Inl e \<Rightarrow> Inl e
         | Inr data \<Rightarrow>
             (case has_nested data ''friendslist'' ''friends'' of
                Inl e \<Rightarrow> Inl e
              | Inr False \<Rightarrow> Inr (False, [], ''No friends found or unexpected response format'')
              | Inr True \<Rightarrow>
                  (case get_nested data ''friendslist'' ''friends'' of
                     Inl e \<Rightarrow> Inl e
                   | Inr friends \<Rightarrow>
                       (case py_iter friends of
                          Inl e \<Rightarrow> Inl e
                        | Inr entries \<Rightarrow>
                            (case steamids_of entries of
                               Inl e \<Rightarrow> Inl e
                             | Inr friend_ids \<Rightarrow> Inr (True, friend_ids, [])))))))"

definition friend_list_handler :: "exc \<Rightarrow> bool \<times> string list \<times> string" where
  "friend_list_handler e =
     (case e of
        Timeout \<Rightarrow> (False, [], ''Request timeout'')
      | RequestException m \<Rightarrow> (False, [], ''Network error: '' @ m)
      | OtherException m \<Rightarrow> (False, [], ''Error retrieving friend list: '' @ m))"

text \<open>Lines 299 to 304: the request for the friend list of one id.\<close>

definition friend_list_request :: "state \<Rightarrow> string \<Rightarrow> request" where
  "friend_list_request s sid =
     (let url = STEAM_API_BASE @ ''/'' @ FRIEND_LIST_ENDPOINT;
          params = [(''key'', api_key s), (''steamid'', sid), (''relationship'', ''friend'')]
      in Get url params)"

definition get_friend_list ::
    "network \<Rightarrow> state \<Rightarrow> string \<Rightarrow> (bool \<times> string list \<times> string) \<times> state" where
  "get_friend_list net s sid =
     (let s1 = rate_limit_check s;
          (answer, s2) = http_get net (friend_list_request s1 sid) s1
      in (case answer of
            Inl e \<Rightarrow> friend_list_handler e
          | Inr r \<Rightarrow>
              (case friend_list_outcome r of
                 Inl e \<Rightarrow> friend_list_handler e
               | Inr res \<Rightarrow> res),
          s2))"

text \<open>
  \<^verbatim>\<open>get_mutual_friends\<close>: both lists are fetched, the account's own first, and the
  comprehension of line 367 keeps the ids of the target's list that are neither in the
  set of the account's friends nor the account's own id.
\<close>

definition get_mutual_friends ::
    "network \<Rightarrow> state \<Rightarrow> string \<Rightarrow> (bool \<times> string list \<times> string) \<times> state" where
  "get_mutual_friends net s target_steam_id =
     (let ((success1, your_friends, error1), s1) = get_friend_list net s (steam_id s) in
      if \<not> success1 then ((False, [], ''Failed to get your friend list: '' @ error1), s1)
      else
        (let ((success2, their_friends, error2), s2) = get_friend_list net s1 target_steam_id in
         if \<not> success2
           then ((False, [], ''Failed to get target user's friend list: '' @ error2), s2)
         else
           (let your_friends_set = set your_friends;
                potential_friends =
                  [fid \<leftarrow> their_friends. fid \<notin> your_friends_set \<and> fid \<noteq> steam_id s2]
            in ((True, potential_friends, []), s2))))"

text \<open>One iteration of the loop of lines 422 to 442.\<close>

definition add_friend :: "network \<Rightarrow> string \<Rightarrow> dict \<times> state \<Rightarrow> dict \<times> state" where
  "add_friend net friend_id rs =
     (let (results, s) = rs;
          results1 = incr ''total'' results;
          (outcome, s1) = send_friend_request net s friend_id
      in (classify outcome results1, sleep 1 s1))"

definition add_mutual_friends :: "network \<Rightarrow> state \<Rightarrow> string \<Rightarrow> dict \<times> state" where
  "add_mutual_friends net s target_steam_id =
     (let ((is_valid, validation_msg), s1) = validate_steam_id net s target_steam_id in
      if \<not> is_valid
        then ([(''error'', StrV (''Invalid target Steam ID: '' @ validation_msg))], s1)
      else
        (let ((success, friend_ids, error), s2) = get_mutual_friends net s1 target_steam_id in
         if \<not> success then ([(''error'', StrV error)], s2)
         else if length friend_ids = 0 then (new_results, s2)
         else fold (add_friend net) friend_ids (new_results, s2)))"

subsection \<open>Predicates on result dictionaries\<close>

text \<open>
  A dictionary holds the counters when each of the five keys is bound to an integer; it
  is balanced when its total is the sum of its successes, failures and invalid items.
\<close>

fun is_int :: "pyval option \<Rightarrow> bool" where
  "is_int (Some (IntV n)) = True"
| "is_int v = False"

definition counters_present :: "dict \<Rightarrow> bool" where
  "counters_present d =
     (is_int (map_of d ''total'') \<and> is_int (map_of d ''success'') \<and>
      is_int (map_of d ''failed'') \<and> is_int (map_of d ''invalid'') \<and>
      is_int (map_of d ''skipped''))"

definition balanced :: "dict \<Rightarrow> bool" where
  "balanced d =
     (counter d ''total'' = counter d ''success'' + counter d ''failed'' + counter d ''invalid'')"

subsection \<open>Concrete worlds\<close>

text \<open>
  The worlds in which the theorems below are instantiated: an account created at instant
  0, a network that gives every request the same answer, the body of a player summary
  with given players, the body of a friend list with given ids, a network that answers
  the player lookup with one player and the friend-list lookup from a table, and three
  file systems: every path is a file with given lines, no path is a file, every path is a
  file whose reading raises.
\<close>

definition adder0 :: state where
  "adder0 = init ''KEY'' ''76561198000000001'' 0"

definition net_const :: "exc + response \<Rightarrow> network" where
  "net_const a = (\<lambda>k req. a)"

definition players_body :: "json list \<Rightarrow> json" where
  "players_body ps = JObj [(''response'', JObj [(''players'', JArr ps)])]"

definition friends_body :: "string list \<Rightarrow> json" where
  "friends_body ids =
     JObj [(''friendslist'', JObj [(''friends'', JArr (map (\<lambda>i. JObj [(''steamid'', JStr i)]) ids))])]"

definition net_friends :: "(string \<times> string list) list \<Rightarrow> network" where
  "net_friends table =
     (\<lambda>k req.
        if url req = STEAM_API_BASE @ ''/'' @ PLAYER_SUMMARIES_ENDPOINT
        then Inr (Response 200 (Inr (players_body [JObj []])))
        else
          (case map_of (params req) ''steamid'' of
             None \<Rightarrow> Inr (Response 403 (Inr JNull))
           | Some i \<Rightarrow>
               (case map_of table i of
                  None \<Rightarrow> Inr (Response 403 (Inr JNull))
                | Some ids \<Rightarrow> Inr (Response 200 (Inr (friends_body ids))))))"

definition file_with :: "string list \<Rightarrow> filesystem" where
  "file_with ls = (\<lambda>p. (True, Inr ls))"

definition no_file :: filesystem where
  "no_file = (\<lambda>p. (False, Inl ''No such file or directory''))"

definition unreadable_file :: "string \<Rightarrow> filesystem" where
  "unreadable_file e = (\<lambda>p. (True, Inl e))"

text \<open>
  Three tables of friend lists for the account 76561198000000001 and the target
  76561198000000002: lists that repeat ids and overlap; disjoint lists of which the
  target's contains the account; lists with the same members.
\<close>

definition table1 :: "(string \<times> string list) list" where
  "table1 =
     [(''76561198000000001'', [''76561198000000003'', ''76561198000000003'']),
      (''76561198000000002'',
         [''76561198000000005'', ''76561198000000003'', ''76561198000000001'',
          ''76561198000000004'', ''76561198000000005''])]"

definition table2 :: "(string \<times> string list) list" where
  "table2 =
     [(''76561198000000001'', [''76561198000000003'']),
      (''76561198000000002'', [''76561198000000001'', ''76561198000000004''])]"

definition table3 :: "(string \<times> string list) list" where
  "table3 =
     [(''76561198000000001'', [''76561198000000003'', ''76561198000000004'']),
      (''76561198000000002'', [''76561198000000004'', ''76561198000000003''])]"

declare str_nat.simps [simp del]

section \<open>The rate limiter (claim C3)\<close>













section \<open>Validating an identifier (claims C4, C10, C5 and C6)\<close>

subsection \<open>Stripping\<close>

lemma digit_not_space: "isdigit_char c \<Longrightarrow> \<not> isspace_char c"
  by (auto simp: isdigit_char_def isspace_char_def Let_def)

lemma dropWhile_all: "list_all P xs \<Longrightarrow> dropWhile P (xs @ ys) = dropWhile P ys"
  by (induction xs) auto

lemma strip_all_space:
  assumes "list_all isspace_char w"
  shows "strip w = []"
proof -
  have a: "dropWhile isspace_char w = []"
    using assms by (induction w) auto
  show ?thesis unfolding strip_def a by simp
qed

lemma strip_surrounded:
  assumes "list_all isspace_char l" and "list_all isspace_char r"
    and "d \<noteq> []" and "\<not> isspace_char (hd d)" and "\<not> isspace_char (last d)"
  shows "strip (l @ d @ r) = d"
proof -
  have front: "dropWhile isspace_char (l @ d @ r) = d @ r"
    using assms(1,3,4) by (cases d) (simp_all add: dropWhile_all)
  have "rev (d @ r) = rev r @ rev d" by simp
  moreover have "list_all isspace_char (rev r)" using assms(2) by (simp add: list_all_iff)
  ultimately have "dropWhile isspace_char (rev (d @ r)) = dropWhile isspace_char (rev d)"
    by (simp add: dropWhile_all)
  also have "\<dots> = rev d"
    using assms(3,5) by (cases "rev d") (simp_all add: hd_rev)
  finally show ?thesis by (simp add: strip_def front)
qed

lemma strip_digits:
  assumes "list_all isspace_char l" and "list_all isspace_char r" and "isdigit d"
  shows "strip (l @ d @ r) = d"
proof -
  from assms(3) have ne: "d \<noteq> []" and all: "list_all isdigit_char d"
    by (simp_all add: isdigit_def)
  then have "isdigit_char (hd d)" and "isdigit_char (last d)"
    by (simp_all add: list_all_iff)
  then show ?thesis
    using assms(1,2) ne by (intro strip_surrounded) (simp_all add: digit_not_space)
qed

lemma strip_idem: "strip (strip s) = strip s"
proof (cases "strip s = []")
  case True
  have "strip [] = []" by (simp add: strip_def)
  with True show ?thesis by simp
next
  case False
  let ?a = "dropWhile isspace_char s"
  let ?b = "dropWhile isspace_char (rev ?a)"
  have s: "strip s = rev ?b" by (simp add: strip_def)
  from False have bne: "?b \<noteq> []" by (simp add: s)
  then have ane: "?a \<noteq> []" by (metis dropWhile.simps(1) rev.simps(1))
  have hb: "\<not> isspace_char (hd ?b)" using bne by (rule hd_dropWhile)
  have ha: "\<not> isspace_char (hd ?a)" using ane by (rule hd_dropWhile)
  have "last (rev ?b) = hd ?b" using bne by (simp add: last_rev)
  have "hd (rev ?b) = last ?b" using bne by (simp add: hd_rev)
  also have "last ?b = last (rev ?a)"
    using bne by (metis last_appendR takeWhile_dropWhile_id)
  also have "\<dots> = hd ?a" using ane by (simp add: last_rev)
  finally have "\<not> isspace_char (hd (rev ?b))" using ha by simp
  moreover have "\<not> isspace_char (last (rev ?b))" using hb bne by (simp add: last_rev)
  ultimately have "strip ([] @ rev ?b @ []) = rev ?b"
    using bne by (intro strip_surrounded) simp_all
  then show ?thesis by (simp add: s)
qed

lemma str_in_prefix: "str_in p (p @ s)"
proof (cases "p @ s")
  case Nil
  then show ?thesis by simp
next
  case (Cons a l)
  have "startswith (p @ s) p" by (simp add: startswith_def)
  then show ?thesis unfolding Cons by simp
qed

subsection \<open>The lookup of a well-formed identifier\<close>

lemma rate_limit_check_fields [simp]:
  "api_key (rate_limit_check s) = api_key s"
  "steam_id (rate_limit_check s) = steam_id s"
  "requests (rate_limit_check s) = requests s"
  by (simp_all add: rate_limit_check_def sleep_def Let_def)

lemma validate_format_ok:
  assumes "strip sid0 = sid" and "isdigit sid" and "length sid = 17"
  shows "validate_steam_id net s sid0 =
           ((case net (length (requests s)) (player_summaries_request s sid) of
               Inl e \<Rightarrow> validate_handler e
             | Inr r \<Rightarrow>
                 (case player_summary_outcome r of
                    Inl e \<Rightarrow> validate_handler e
                  | Inr res \<Rightarrow> res)),
            (rate_limit_check s)\<lparr>requests := requests s @ [player_summaries_request s sid]\<rparr>)"
proof -
  from assms(2) have "sid \<noteq> []" by (simp add: isdigit_def)
  then show ?thesis
    using assms
    by (simp add: validate_steam_id_def Let_def http_get_def player_summaries_request_def)
qed


lemma validate_strip: "validate_steam_id net s (strip sid0) = validate_steam_id net s sid0"
  by (simp add: validate_steam_id_def strip_idem)








text \<open>
  Claim C10. Validating a string is validating the stripped string. In particular 17 digits
  with whitespace before and after them give the same result and the same state as the 17
  digits alone, and the one request issued carries the 17 digits, without the whitespace, as
  its \<^verbatim>\<open>steamids\<close> parameter; and a string of whitespace only is
  rejected as \<^verbatim>\<open>Empty Steam ID\<close>, with the state unchanged.
\<close>

theorem validate_strips_first:
  "validate_steam_id net s sid0 = validate_steam_id net s (strip sid0) \<and>
   (list_all isspace_char l \<and> list_all isspace_char r \<and> isdigit d \<and> length d = 17 \<longrightarrow>
      validate_steam_id net s (l @ d @ r) = validate_steam_id net s d \<and>
      requests (snd (validate_steam_id net s (l @ d @ r)))
        = requests s @ [Get (STEAM_API_BASE @ ''/'' @ PLAYER_SUMMARIES_ENDPOINT)
                            [(''key'', api_key s), (''steamids'', d)]]) \<and>
   (list_all isspace_char w \<longrightarrow> validate_steam_id net s w = ((False, ''Empty Steam ID''), s))"
proof (intro conjI impI)
  show "validate_steam_id net s sid0 = validate_steam_id net s (strip sid0)"
    by (simp add: validate_strip)
next
  assume a: "list_all isspace_char l \<and> list_all isspace_char r \<and> isdigit d \<and> length d = 17"
  then have st: "strip (l @ d @ r) = d" by (simp add: strip_digits)
  then show "validate_steam_id net s (l @ d @ r) = validate_steam_id net s d"
    using validate_strip [of net s "l @ d @ r"] by simp
  from a st show "requests (snd (validate_steam_id net s (l @ d @ r)))
        = requests s @ [Get (STEAM_API_BASE @ ''/'' @ PLAYER_SUMMARIES_ENDPOINT)
                            [(''key'', api_key s), (''steamids'', d)]]"
    by (simp add: validate_format_ok [where sid = d] player_summaries_request_def)
next
  assume "list_all isspace_char w"
  then have "strip w = []" by (rule strip_all_space)
  then show "validate_steam_id net s w = ((False, ''Empty Steam ID''), s)"
    by (simp add: validate_steam_id_def)
qed

lemma isdigit_ex: "isdigit ''76561198000000002''"
  by (simp add: isdigit_def isdigit_char_def)

lemma strip_ex: "strip ''76561198000000002'' = ''76561198000000002''"
  by (simp add: strip_def isspace_char_def)

text \<open>
  Claim C10 at an identifier with one blank before it and two after it, and at a string of
  three blanks.
\<close>

theorem validate_strips_first_witness:
  "requests (snd (validate_steam_id (net_const (Inl Timeout)) adder0 ('' '' @ ''76561198000000002'' @ ''  '')))
     = [Get (STEAM_API_BASE @ ''/'' @ PLAYER_SUMMARIES_ENDPOINT)
            [(''key'', ''KEY''), (''steamids'', ''76561198000000002'')]] \<and>
   validate_steam_id (net_const (Inl Timeout)) adder0 ''   ''
     = ((False, ''Empty Steam ID''), adder0)"
proof -
  let ?net = "net_const (Inl Timeout)"
  have h: "list_all isspace_char '' '' \<and> list_all isspace_char ''  '' \<and>
           isdigit ''76561198000000002'' \<and> length ''76561198000000002'' = 17"
    by (simp add: isspace_char_def isdigit_ex)
  have w: "list_all isspace_char ''   ''" by (simp add: isspace_char_def)
  have "requests (snd (validate_steam_id ?net adder0 ('' '' @ ''76561198000000002'' @ ''  '')))
          = requests adder0 @ [Get (STEAM_API_BASE @ ''/'' @ PLAYER_SUMMARIES_ENDPOINT)
                            [(''key'', api_key adder0), (''steamids'', ''76561198000000002'')]]"
    using validate_strips_first [of ?net adder0 "[]" "'' ''" "''  ''" "''76561198000000002''" "[]"] h
    by blast
  moreover have "validate_steam_id ?net adder0 ''   '' = ((False, ''Empty Steam ID''), adder0)"
    using validate_strips_first [of ?net adder0 "[]" "[]" "[]" "[]" "''   ''"] w by blast
  ultimately show ?thesis by (simp add: adder0_def init_def)
qed

lemma validate_lookup:
  assumes "isdigit (strip sid0)" and "length (strip sid0) = 17"
  shows "fst (validate_steam_id net s sid0) =
           (case net (length (requests s)) (player_summaries_request s (strip sid0)) of
               Inl e \<Rightarrow> validate_handler e
             | Inr r \<Rightarrow>
                 (case player_summary_outcome r of
                    Inl e \<Rightarrow> validate_handler e
                  | Inr res \<Rightarrow> res))"
  using assms by (simp add: validate_format_ok [where sid = "strip sid0"])

text \<open>
  Claim C5, as amended. For an argument that passes the format check, let \<open>a\<close>
  be the answer of the network to the request for its player summary. Status 403 gives
  \<^verbatim>\<open>Invalid API key or insufficient permissions\<close>, status 429 gives
  \<^verbatim>\<open>Rate limited by Steam API\<close>, and any other status than 200 gives
  \<^verbatim>\<open>API error (status code: c)\<close> with the code c. A timeout gives
  \<^verbatim>\<open>Request timeout\<close>, another request exception gives
  \<^verbatim>\<open>Network error: \<close> followed by its text, and any other exception
  gives \<^verbatim>\<open>Validation error: \<close> followed by its text; the same three
  handlers receive what parsing the body or inspecting it raises. With status 200 and a
  parsed body on which the test \<^verbatim>\<open>'response' in data and 'players' in
  data['response']\<close> evaluates to false, the result is \<^verbatim>\<open>Unexpected
  API response format\<close>; where it evaluates to true and the players are an array, an
  empty array gives \<^verbatim>\<open>Steam ID not found\<close> and any other array gives
  \<^verbatim>\<open>Valid\<close>.
\<close>

theorem validate_lookup_outcomes:
  assumes "isdigit (strip sid0)" and "length (strip sid0) = 17"
    and "a = net (length (requests s)) (player_summaries_request s (strip sid0))"
    and "out = fst (validate_steam_id net s sid0)"
  shows "(\<forall>b. a = Inr (Response 403 b) \<longrightarrow>
            out = (False, ''Invalid API key or insufficient permissions'')) \<and>
         (\<forall>b. a = Inr (Response 429 b) \<longrightarrow> out = (False, ''Rate limited by Steam API'')) \<and>
         (\<forall>c b. a = Inr (Response c b) \<and> c \<noteq> 200 \<and> c \<noteq> 403 \<and> c \<noteq> 429 \<longrightarrow>
            out = (False, ''API error (status code: '' @ str_int c @ '')'')) \<and>
         (a = Inl Timeout \<longrightarrow> out = (False, ''Request timeout'')) \<and>
         (\<forall>m. a = Inl (RequestException m) \<longrightarrow> out = (False, ''Network error: '' @ m)) \<and>
         (\<forall>m. a = Inl (OtherException m) \<longrightarrow> out = (False, ''Validation error: '' @ m)) \<and>
         (\<forall>e. a = Inr (Response 200 (Inl e)) \<longrightarrow> out = validate_handler e) \<and>
         (\<forall>data e. a = Inr (Response 200 (Inr data)) \<and>
                    has_nested data ''response'' ''players'' = Inl e \<longrightarrow>
            out = validate_handler e) \<and>
         (\<forall>data. a = Inr (Response 200 (Inr data)) \<and>
                  has_nested data ''response'' ''players'' = Inr False \<longrightarrow>
            out = (False, ''Unexpected API response format'')) \<and>
         (\<forall>data ps. a = Inr (Response 200 (Inr data)) \<and>
                     has_nested data ''response'' ''players'' = Inr True \<and>
                     get_nested data ''response'' ''players'' = Inr (JArr ps) \<longrightarrow>
            out = (if ps = [] then (False, ''Steam ID not found'') else (True, ''Valid'')))"
proof -
  have out: "out = (case a of
               Inl e \<Rightarrow> validate_handler e
             | Inr r \<Rightarrow>
                 (case player_summary_outcome r of
                    Inl e \<Rightarrow> validate_handler e
                  | Inr res \<Rightarrow> res))"
    using assms by (simp add: validate_lookup)
  show ?thesis
    unfolding out
    by (auto simp: player_summary_outcome_def validate_handler_def)
qed

lemma has_nested_obj:
  "has_nested (JObj kvs) k1 k2 =
     (case map_of kvs k1 of None \<Rightarrow> Inr False | Some inner \<Rightarrow> py_in k2 inner)"
  by (simp add: has_nested_def split: option.splits)

text \<open>
  Claim C5, amended, at four answers: status 403; status 200 with no players, with one
  player, and with an empty object as body.
\<close>

theorem validate_lookup_outcomes_witness:
  "fst (validate_steam_id (net_const (Inr (Response 403 (Inr JNull)))) adder0 ''76561198000000002'')
     = (False, ''Invalid API key or insufficient permissions'') \<and>
   fst (validate_steam_id (net_const (Inr (Response 200 (Inr (players_body [])))))
          adder0 ''76561198000000002'')
     = (False, ''Steam ID not found'') \<and>
   fst (validate_steam_id (net_const (Inr (Response 200 (Inr (players_body [JObj []])))))
          adder0 ''76561198000000002'')
     = (True, ''Valid'') \<and>
   fst (validate_steam_id (net_const (Inr (Response 200 (Inr (JObj [])))))
          adder0 ''76561198000000002'')
     = (False, ''Unexpected API response format'')"
proof -
  have f1: "isdigit (strip ''76561198000000002'')" by (simp add: strip_ex isdigit_ex)
  have f2: "length (strip ''76561198000000002'') = 17" by (simp add: strip_ex)
  have n: "\<And>ps. has_nested (players_body ps) ''response'' ''players'' = Inr True"
    by (simp add: players_body_def has_nested_obj)
  have g: "\<And>ps. get_nested (players_body ps) ''response'' ''players'' = Inr (JArr ps)"
    by (simp add: players_body_def get_nested_def)
  have e: "has_nested (JObj []) ''response'' ''players'' = Inr False"
    by (simp add: has_nested_obj)
  show ?thesis
    using validate_lookup_outcomes [OF f1 f2 refl refl,
        of "net_const (Inr (Response 403 (Inr JNull)))" adder0]
      validate_lookup_outcomes [OF f1 f2 refl refl,
        of "net_const (Inr (Response 200 (Inr (players_body []))))" adder0]
      validate_lookup_outcomes [OF f1 f2 refl refl,
        of "net_const (Inr (Response 200 (Inr (players_body [JObj []]))))" adder0]
      validate_lookup_outcomes [OF f1 f2 refl refl,
        of "net_const (Inr (Response 200 (Inr (JObj []))))" adder0]
      n g e
    by (simp add: net_const_def)
qed

text \<open>
  Claim C5 as stated fails at two bodies of status 200 that lack the nested structure. On
  the body whose one field \<^verbatim>\<open>response\<close> is
  \<^verbatim>\<open>null\<close> the test \<^verbatim>\<open>'players' in
  data['response']\<close> raises a \<^verbatim>\<open>TypeError\<close>, which the last
  handler turns into \<^verbatim>\<open>Validation error:\<close>, not into
  \<^verbatim>\<open>Unexpected API response format\<close>. On a body that is not JSON,
  \<^verbatim>\<open>response.json()\<close> raises; where that exception is a
  \<^verbatim>\<open>RequestException\<close>, as it is in the current releases of the
  library, the result is \<^verbatim>\<open>Network error:\<close>.
\<close>

theorem validate_lookup_counterexample:
  "fst (validate_steam_id (net_const (Inr (Response 200 (Inr (JObj [(''response'', JNull)])))))
          adder0 ''76561198000000002'')
     = (False, ''Validation error: TypeError'') \<and>
   fst (validate_steam_id
          (net_const (Inr (Response 200 (Inl (RequestException ''Expecting value'')))))
          adder0 ''76561198000000002'')
     = (False, ''Network error: Expecting value'')"
proof -
  have f1: "isdigit (strip ''76561198000000002'')" by (simp add: strip_ex isdigit_ex)
  have f2: "length (strip ''76561198000000002'') = 17" by (simp add: strip_ex)
  have e: "has_nested (JObj [(''response'', JNull)]) ''response'' ''players''
             = Inl (OtherException ''TypeError'')"
    by (simp add: has_nested_obj)
  show ?thesis
    by (simp add: validate_lookup [OF f1 f2] net_const_def player_summary_outcome_def
        validate_handler_def e)
qed

lemma friend_list_lookup:
  "fst (get_friend_list net s sid) =
     (case net (length (requests s)) (friend_list_request s sid) of
        Inl e \<Rightarrow> friend_list_handler e
      | Inr r \<Rightarrow>
          (case friend_list_outcome r of
             Inl e \<Rightarrow> friend_list_handler e
           | Inr res \<Rightarrow> res))"
  by (simp add: get_friend_list_def Let_def http_get_def friend_list_request_def)

text \<open>
  Claim C6. Whatever the body of the response: \<^verbatim>\<open>get_friend_list\<close>
  answers status 401 with \<^verbatim>\<open>Invalid API key\<close> and status 403 with
  \<^verbatim>\<open>Friend list is private or user not found\<close>, while
  \<^verbatim>\<open>validate_steam_id\<close>, on an argument that passes the format check,
  answers status 403 with \<^verbatim>\<open>Invalid API key or insufficient
  permissions\<close> and has no case of its own for status 401, which it reports as
  \<^verbatim>\<open>API error (status code: 401)\<close>.
\<close>

theorem status_code_asymmetry:
  "(net (length (requests s)) (friend_list_request s sid) = Inr (Response 401 b) \<longrightarrow>
      fst (get_friend_list net s sid) = (False, [], ''Invalid API key'')) \<and>
   (net (length (requests s)) (friend_list_request s sid) = Inr (Response 403 b) \<longrightarrow>
      fst (get_friend_list net s sid) = (False, [], ''Friend list is private or user not found'')) \<and>
   (isdigit (strip sid0) \<and> length (strip sid0) = 17 \<and>
    net (length (requests s)) (player_summaries_request s (strip sid0)) = Inr (Response 403 b) \<longrightarrow>
      fst (validate_steam_id net s sid0) = (False, ''Invalid API key or insufficient permissions'')) \<and>
   (isdigit (strip sid0) \<and> length (strip sid0) = 17 \<and>
    net (length (requests s)) (player_summaries_request s (strip sid0)) = Inr (Response 401 b) \<longrightarrow>
      fst (validate_steam_id net s sid0) = (False, ''API error (status code: '' @ str_int 401 @ '')''))"
  by (auto simp: friend_list_lookup friend_list_outcome_def validate_lookup
      player_summary_outcome_def)

lemma str_int_401: "str_int 401 = ''401''"
  by code_simp

text \<open>Claim C6 at responses with the statuses 401 and 403, for both methods.\<close>

theorem status_code_asymmetry_witness:
  "fst (get_friend_list (net_const (Inr (Response 401 (Inr JNull)))) adder0 ''76561198000000002'')
     = (False, [], ''Invalid API key'') \<and>
   fst (get_friend_list (net_const (Inr (Response 403 (Inr JNull)))) adder0 ''76561198000000002'')
     = (False, [], ''Friend list is private or user not found'') \<and>
   fst (validate_steam_id (net_const (Inr (Response 403 (Inr JNull)))) adder0 ''76561198000000002'')
     = (False, ''Invalid API key or insufficient permissions'') \<and>
   fst (validate_steam_id (net_const (Inr (Response 401 (Inr JNull)))) adder0 ''76561198000000002'')
     = (False, ''API error (status code: 401)'')"
proof -
  have f: "isdigit (strip ''76561198000000002'') \<and> length (strip ''76561198000000002'') = 17"
    by (simp add: strip_ex isdigit_ex)
  show ?thesis
    using status_code_asymmetry [of "net_const (Inr (Response 401 (Inr JNull)))" adder0
        "''76561198000000002''" "Inr JNull" "''76561198000000002''"]
      status_code_asymmetry [of "net_const (Inr (Response 403 (Inr JNull)))" adder0
        "''76561198000000002''" "Inr JNull" "''76561198000000002''"]
      f
    unfolding str_int_401 by (simp add: net_const_def)
qed


section \<open>Batch runs (claims C1, C9 and C7)\<close>

subsection \<open>Counters\<close>

lemma map_of_incr:
  "map_of (incr k d) k' =
     (if k' = k \<and> is_int (map_of d k) then Some (IntV (counter d k + 1)) else map_of d k')"
proof (cases "map_of d k")
  case None
  then show ?thesis by (simp add: incr_def)
next
  case (Some v)
  then show ?thesis
    by (cases v) (simp_all add: incr_def counter_def update_conv')
qed

lemma counter_incr:
  "counter (incr k d) k' =
     (if k' = k \<and> is_int (map_of d k) then counter d k + 1 else counter d k')"
  by (simp add: counter_def [of "incr k d"] map_of_incr) (simp add: counter_def)

lemma is_int_incr: "is_int (map_of (incr k d) k') = is_int (map_of d k')"
  by (simp add: map_of_incr)

lemma counters_present_incr: "counters_present (incr k d) = counters_present d"
  by (simp add: counters_present_def is_int_incr)

lemma counters_present_new: "counters_present new_results"
  by (simp add: counters_present_def new_results_def)

lemma counter_new: "counter new_results k = 0"
  by (simp add: counter_def new_results_def)

lemma keys_incr: "map fst (incr k d) = map fst d"
proof (cases "map_of d k")
  case None
  then show ?thesis by (simp add: incr_def)
next
  case (Some v)
  then have "k \<in> fst ` set d" by (metis map_of_eq_None_iff option.distinct(1))
  then show ?thesis
    using Some by (cases v) (simp_all add: incr_def update_keys)
qed

subsection \<open>One item\<close>

text \<open>
  Every failure that \<^verbatim>\<open>send_friend_request\<close> reports starts with
  \<^verbatim>\<open>Validation failed\<close>, so the substring test of the loops for
  \<^verbatim>\<open>Validation failed\<close> holds of every failure.
\<close>

lemma send_friend_request_outcome:
  "fst (send_friend_request net s t) =
     (if fst (fst (validate_steam_id net s t))
      then (True, ''Steam ID validated and ready for friend request'')
      else (False, ''Validation failed: '' @ snd (fst (validate_steam_id net s t))))"
  by (simp add: send_friend_request_def split: prod.splits)

lemma classify_send:
  "classify (fst (send_friend_request net s t)) d =
     (if fst (fst (validate_steam_id net s t)) then incr ''success'' d else incr ''invalid'' d)"
  unfolding send_friend_request_outcome classify_def
  using str_in_prefix [of "''Validation failed''"
      "'': '' @ snd (fst (validate_steam_id net s t))"]
  by simp

lemma add_friend_results:
  "fst (add_friend net fid (results, s)) =
     (if fst (fst (validate_steam_id net s fid)) then incr ''success'' (incr ''total'' results)
      else incr ''invalid'' (incr ''total'' results))"
proof -
  have "fst (add_friend net fid (results, s))
          = classify (fst (send_friend_request net s fid)) (incr ''total'' results)"
    by (simp add: add_friend_def Let_def split: prod.splits)
  then show ?thesis by (simp only: classify_send)
qed

lemma process_line_results:
  "fst (process_line net line (results, s)) =
     (if strip line = [] \<or> startswith (strip line) ''#'' then incr ''skipped'' results
      else if fst (fst (validate_steam_id net s (strip line)))
        then incr ''success'' (incr ''total'' results)
      else incr ''invalid'' (incr ''total'' results))"
proof (cases "strip line = [] \<or> startswith (strip line) ''#''")
  case True
  then show ?thesis by (auto simp: process_line_def Let_def)
next
  case False
  then have "fst (process_line net line (results, s))
          = classify (fst (send_friend_request net s (strip line))) (incr ''total'' results)"
    by (simp add: process_line_def Let_def split: prod.splits)
  then show ?thesis using False by (simp only: classify_send) simp
qed

lemma counters_present_add_friend:
  "counters_present (fst (add_friend net fid rs)) = counters_present (fst rs)"
  by (cases rs) (simp add: add_friend_results counters_present_incr)

lemma counters_present_process_line:
  "counters_present (fst (process_line net line rs)) = counters_present (fst rs)"
  by (cases rs) (simp add: process_line_results counters_present_incr)

lemma keys_add_friend: "map fst (fst (add_friend net fid rs)) = map fst (fst rs)"
  by (cases rs) (simp add: add_friend_results keys_incr)

lemma keys_process_line: "map fst (fst (process_line net line rs)) = map fst (fst rs)"
  by (cases rs) (simp add: process_line_results keys_incr)

lemma failed_add_friend:
  "counter (fst (add_friend net fid rs)) ''failed'' = counter (fst rs) ''failed''"
  by (cases rs) (simp add: add_friend_results counter_incr)

lemma failed_process_line:
  "counter (fst (process_line net line rs)) ''failed'' = counter (fst rs) ''failed''"
  by (cases rs) (simp add: process_line_results counter_incr)

lemma balanced_add_friend:
  assumes "counters_present (fst rs)" and "balanced (fst rs)"
  shows "balanced (fst (add_friend net fid rs))"
  using assms
  by (cases rs) (simp add: add_friend_results balanced_def counter_incr counters_present_def
      is_int_incr)

lemma balanced_process_line:
  assumes "counters_present (fst rs)" and "balanced (fst rs)"
  shows "balanced (fst (process_line net line rs))"
  using assms
  by (cases rs) (simp add: process_line_results balanced_def counter_incr counters_present_def
      is_int_incr)

subsection \<open>The loops\<close>

lemma fold_process_line_inv:
  assumes "counters_present (fst rs)" and "balanced (fst rs)"
  shows "counters_present (fst (fold (process_line net) lines rs)) \<and>
         balanced (fst (fold (process_line net) lines rs)) \<and>
         counter (fst (fold (process_line net) lines rs)) ''failed'' = counter (fst rs) ''failed'' \<and>
         map fst (fst (fold (process_line net) lines rs)) = map fst (fst rs)"
  using assms
proof (induction lines arbitrary: rs)
  case Nil
  then show ?case by simp
next
  case (Cons line lines)
  let ?rs = "process_line net line rs"
  have "counters_present (fst ?rs)" using Cons.prems(1) by (simp add: counters_present_process_line)
  moreover have "balanced (fst ?rs)" using Cons.prems by (rule balanced_process_line)
  ultimately show ?case
    using Cons.IH [of ?rs] by (simp add: failed_process_line keys_process_line)
qed

lemma fold_add_friend_inv:
  assumes "counters_present (fst rs)" and "balanced (fst rs)"
  shows "counters_present (fst (fold (add_friend net) ids rs)) \<and>
         balanced (fst (fold (add_friend net) ids rs)) \<and>
         counter (fst (fold (add_friend net) ids rs)) ''failed'' = counter (fst rs) ''failed'' \<and>
         map fst (fst (fold (add_friend net) ids rs)) = map fst (fst rs)"
  using assms
proof (induction ids arbitrary: rs)
  case Nil
  then show ?case by simp
next
  case (Cons fid ids)
  let ?rs = "add_friend net fid rs"
  have "counters_present (fst ?rs)" using Cons.prems(1) by (simp add: counters_present_add_friend)
  moreover have "balanced (fst ?rs)" using Cons.prems by (rule balanced_add_friend)
  ultimately show ?case
    using Cons.IH [of ?rs] by (simp add: failed_add_friend keys_add_friend)
qed

lemma balanced_new: "balanced new_results"
  by (simp add: balanced_def counter_new)


lemma process_file_cases:
  "process_steam_ids_file net fs s path =
     (if \<not> fst (fs path) then ([(''error'', StrV ''File not found'')], s)
      else case snd (fs path) of
             Inl e \<Rightarrow> (new_results @ [(''error'', StrV e)], s)
           | Inr steam_ids \<Rightarrow> fold (process_line net) steam_ids (new_results, s))"
  by (simp add: process_steam_ids_file_def new_results_def split: sum.splits)

lemma add_mutual_friends_shape:
  "(\<exists>e. fst (add_mutual_friends net s target) = [(''error'', StrV e)]) \<or>
   (\<exists>ids s'. fst (add_mutual_friends net s target)
                = fst (fold (add_friend net) ids (new_results, s')))"
proof -
  obtain v m s1 where v: "validate_steam_id net s target = ((v, m), s1)"
    by (metis prod.exhaust)
  obtain ok ids e s2 where g: "get_mutual_friends net s1 target = ((ok, ids, e), s2)"
    by (metis prod.exhaust)
  show ?thesis
  proof (cases "v \<and> ok")
    case False
    then show ?thesis by (auto simp: add_mutual_friends_def v g)
  next
    case True
    have "fst (add_mutual_friends net s target) = fst (fold (add_friend net) ids (new_results, s2))"
      using True by (cases ids) (simp_all add: add_mutual_friends_def v g)
    then show ?thesis by blast
  qed
qed


text \<open>
  Claim C1, as amended. The claim sends the outcomes AuthError, RateLimited, NetworkError
  and UnexpectedResponse to the counter \<^verbatim>\<open>failed\<close>. In the code every
  item that validation rejects, for whatever reason, increments
  \<^verbatim>\<open>invalid\<close>, and an item that validation accepts increments
  \<^verbatim>\<open>success\<close>; no item changes \<^verbatim>\<open>failed\<close>,
  which is 0 in the result of every run of either kind. This is stated for one iteration of
  each of the two loops, on any dictionary that holds the counters, and for the results of
  \<^verbatim>\<open>process_steam_ids_file\<close> and
  \<^verbatim>\<open>add_mutual_friends\<close>.
\<close>

theorem rejections_count_as_invalid:
  assumes "counters_present results"
  shows "(let valid = fst (fst (validate_steam_id net s friend_id));
              results' = fst (add_friend net friend_id (results, s))
          in counter results' ''failed'' = counter results ''failed'' \<and>
             counter results' ''invalid'' = counter results ''invalid'' + (if valid then 0 else 1) \<and>
             counter results' ''success'' = counter results ''success'' + (if valid then 1 else 0)) \<and>
         (strip line \<noteq> [] \<and> \<not> startswith (strip line) ''#'' \<longrightarrow>
           (let valid = fst (fst (validate_steam_id net s (strip line)));
                results' = fst (process_line net line (results, s))
            in counter results' ''failed'' = counter results ''failed'' \<and>
               counter results' ''invalid'' = counter results ''invalid'' + (if valid then 0 else 1) \<and>
               counter results' ''success'' = counter results ''success'' + (if valid then 1 else 0))) \<and>
         counter (fst (process_steam_ids_file net fs s0 path)) ''failed'' = 0 \<and>
         counter (fst (add_mutual_friends net s0 target)) ''failed'' = 0"
proof -
  have p: "is_int (map_of results ''total'')" "is_int (map_of results ''success'')"
    "is_int (map_of results ''invalid'')"
    using assms by (simp_all add: counters_present_def)
  have a: "let valid = fst (fst (validate_steam_id net s friend_id));
              results' = fst (add_friend net friend_id (results, s))
          in counter results' ''failed'' = counter results ''failed'' \<and>
             counter results' ''invalid'' = counter results ''invalid'' + (if valid then 0 else 1) \<and>
             counter results' ''success'' = counter results ''success'' + (if valid then 1 else 0)"
    using p by (simp add: Let_def add_friend_results counter_incr is_int_incr)
  have b: "strip line \<noteq> [] \<and> \<not> startswith (strip line) ''#'' \<longrightarrow>
           (let valid = fst (fst (validate_steam_id net s (strip line)));
                results' = fst (process_line net line (results, s))
            in counter results' ''failed'' = counter results ''failed'' \<and>
               counter results' ''invalid'' = counter results ''invalid'' + (if valid then 0 else 1) \<and>
               counter results' ''success'' = counter results ''success'' + (if valid then 1 else 0))"
    using p by (simp add: Let_def process_line_results counter_incr is_int_incr)
  have start: "counters_present (fst (new_results, t))" "balanced (fst (new_results, t))" for t :: state
    by (simp_all add: counters_present_new balanced_new)
  have c: "counter (fst (process_steam_ids_file net fs s0 path)) ''failed'' = 0"
  proof (cases "snd (fs path)")
    case (Inl e)
    then show ?thesis
      by (simp add: process_file_cases counter_def new_results_def)
  next
    case (Inr ls)
    then show ?thesis
      using fold_process_line_inv [OF start, of net ls s0]
      by (simp add: process_file_cases counter_new) (simp add: counter_def)
  qed
  have d: "counter (fst (add_mutual_friends net s0 target)) ''failed'' = 0"
    using add_mutual_friends_shape [of net s0 target]
  proof (elim disjE exE)
    fix e
    assume "fst (add_mutual_friends net s0 target) = [(''error'', StrV e)]"
    then show ?thesis by (simp add: counter_def)
  next
    fix ids s'
    assume "fst (add_mutual_friends net s0 target)
              = fst (fold (add_friend net) ids (new_results, s'))"
    then show ?thesis
      using fold_add_friend_inv [OF start, of net ids s'] by (simp add: counter_new)
  qed
  from a b c d show ?thesis by blast
qed

lemma valid_403:
  "fst (fst (validate_steam_id (net_const (Inr (Response 403 (Inr JNull)))) adder0
       ''76561198000000002'')) = False"
proof -
  have f1: "isdigit (strip ''76561198000000002'')" by (simp add: strip_ex isdigit_ex)
  have f2: "length (strip ''76561198000000002'') = 17" by (simp add: strip_ex)
  show ?thesis
    by (simp add: validate_lookup [OF f1 f2] net_const_def player_summary_outcome_def)
qed

text \<open>
  Claim C1, amended, at an identifier that the API answers with status 403, in both loops,
  starting from the fresh counters.
\<close>

theorem rejections_count_as_invalid_witness:
  "counter (fst (add_friend (net_const (Inr (Response 403 (Inr JNull)))) ''76561198000000002''
              (new_results, adder0))) ''failed'' = 0 \<and>
   counter (fst (add_friend (net_const (Inr (Response 403 (Inr JNull)))) ''76561198000000002''
              (new_results, adder0))) ''invalid'' = 1 \<and>
   counter (fst (process_line (net_const (Inr (Response 403 (Inr JNull)))) ''76561198000000002''
              (new_results, adder0))) ''failed'' = 0 \<and>
   counter (fst (process_line (net_const (Inr (Response 403 (Inr JNull)))) ''76561198000000002''
              (new_results, adder0))) ''invalid'' = 1"
proof -
  have h: "strip ''76561198000000002'' \<noteq> [] \<and> \<not> startswith (strip ''76561198000000002'') ''#''"
    by (simp add: strip_ex startswith_def)
  show ?thesis
    using rejections_count_as_invalid [OF counters_present_new,
        of "net_const (Inr (Response 403 (Inr JNull)))" adder0 "''76561198000000002''"
           "''76561198000000002''"] h valid_403
    by (simp add: Let_def counter_new strip_ex)
qed

text \<open>
  Claim C1 as stated fails on a file with one well-formed identifier that the API answers
  with status 403, an AuthError: the run counts it as invalid and leaves
  \<^verbatim>\<open>failed\<close> at 0.
\<close>

theorem auth_error_counterexample:
  "fst (process_steam_ids_file (net_const (Inr (Response 403 (Inr JNull))))
          (file_with [''76561198000000002'']) adder0 ''steam_ids.txt'')
     = [(''total'', IntV 1), (''success'', IntV 0), (''failed'', IntV 0),
        (''invalid'', IntV 1), (''skipped'', IntV 0)]"
proof -
  have h: "\<not> (strip ''76561198000000002'' = [] \<or> startswith (strip ''76561198000000002'') ''#'')"
    by (simp add: strip_ex startswith_def)
  have "fst (process_line (net_const (Inr (Response 403 (Inr JNull)))) ''76561198000000002''
               (new_results, adder0))
          = incr ''invalid'' (incr ''total'' new_results)"
    using h valid_403 by (simp add: process_line_results strip_ex)
  also have "\<dots> = [(''total'', IntV 1), (''success'', IntV 0), (''failed'', IntV 0),
        (''invalid'', IntV 1), (''skipped'', IntV 0)]"
    by (simp add: incr_def new_results_def)
  finally show ?thesis
    by (simp add: process_file_cases file_with_def)
qed




text \<open>
  Claim C7, as amended. When the file does not exist, the result is the dictionary with the
  single field \<^verbatim>\<open>error\<close>, \<^verbatim>\<open>File not found\<close>:
  it holds no counters. When the file exists and opening or reading it raises, no line has
  been processed yet, and the result holds the five counters, all 0, and the text of the
  exception under \<^verbatim>\<open>error\<close>. In both cases the method returns a
  result and the state is unchanged. When the lines have been read, the result holds the
  five counters and no field \<^verbatim>\<open>error\<close>.
\<close>

theorem read_failure_result:
  "(\<not> fst (fs path) \<longrightarrow>
      process_steam_ids_file net fs s path = ([(''error'', StrV ''File not found'')], s)) \<and>
   (fst (fs path) \<and> snd (fs path) = Inl e \<longrightarrow>
      process_steam_ids_file net fs s path =
        ([(''total'', IntV 0), (''success'', IntV 0), (''failed'', IntV 0),
          (''invalid'', IntV 0), (''skipped'', IntV 0), (''error'', StrV e)], s)) \<and>
   (fst (fs path) \<and> snd (fs path) = Inr steam_ids \<longrightarrow>
      map fst (fst (process_steam_ids_file net fs s path))
        = [''total'', ''success'', ''failed'', ''invalid'', ''skipped''])"
proof (intro conjI impI)
  assume "\<not> fst (fs path)"
  then show "process_steam_ids_file net fs s path = ([(''error'', StrV ''File not found'')], s)"
    by (simp add: process_file_cases)
next
  assume "fst (fs path) \<and> snd (fs path) = Inl e"
  then show "process_steam_ids_file net fs s path =
        ([(''total'', IntV 0), (''success'', IntV 0), (''failed'', IntV 0),
          (''invalid'', IntV 0), (''skipped'', IntV 0), (''error'', StrV e)], s)"
    by (simp add: process_file_cases new_results_def)
next
  assume a: "fst (fs path) \<and> snd (fs path) = Inr steam_ids"
  have "counters_present (fst (new_results, s))" "balanced (fst (new_results, s))"
    by (simp_all add: counters_present_new balanced_new)
  then have "map fst (fst (fold (process_line net) steam_ids (new_results, s)))
               = map fst new_results"
    using fold_process_line_inv [of "(new_results, s)" net steam_ids] by simp
  then show "map fst (fst (process_steam_ids_file net fs s path))
        = [''total'', ''success'', ''failed'', ''invalid'', ''skipped'']"
    using a by (simp add: process_file_cases new_results_def)
qed

text \<open>
  Claim C7, amended, at a path with no file, at a file that cannot be read and at a file of
  one line.
\<close>

theorem read_failure_result_witness:
  "process_steam_ids_file (net_const (Inl Timeout)) no_file adder0 ''steam_ids.txt''
     = ([(''error'', StrV ''File not found'')], adder0) \<and>
   process_steam_ids_file (net_const (Inl Timeout)) (unreadable_file ''Permission denied'') adder0
       ''steam_ids.txt''
     = ([(''total'', IntV 0), (''success'', IntV 0), (''failed'', IntV 0),
         (''invalid'', IntV 0), (''skipped'', IntV 0), (''error'', StrV ''Permission denied'')],
        adder0) \<and>
   map fst (fst (process_steam_ids_file (net_const (Inl Timeout)) (file_with [''notanumber''])
       adder0 ''steam_ids.txt''))
     = [''total'', ''success'', ''failed'', ''invalid'', ''skipped'']"
  using read_failure_result [of no_file "''steam_ids.txt''" "net_const (Inl Timeout)" adder0
      "[]" "[]"]
    read_failure_result [of "unreadable_file ''Permission denied''" "''steam_ids.txt''"
      "net_const (Inl Timeout)" adder0 "''Permission denied''" "[]"]
    read_failure_result [of "file_with [''notanumber'']" "''steam_ids.txt''"
      "net_const (Inl Timeout)" adder0 "[]" "[''notanumber'']"]
  by (simp add: no_file_def unreadable_file_def file_with_def)

text \<open>
  Claim C7 as stated fails at a path at which no file exists: the result carries the error
  field and nothing else, and looking up \<^verbatim>\<open>total\<close> in it finds
  nothing.
\<close>

theorem missing_file_counterexample:
  "fst (process_steam_ids_file (net_const (Inl Timeout)) no_file adder0 ''steam_ids.txt'')
     = [(''error'', StrV ''File not found'')] \<and>
   map_of (fst (process_steam_ids_file (net_const (Inl Timeout)) no_file adder0 ''steam_ids.txt''))
     ''total'' = None"
  by (simp add: process_file_cases no_file_def)


section \<open>Candidates (claims C2 and C8)\<close>

lemma get_friend_list_steam_id: "steam_id (snd (get_friend_list net s sid)) = steam_id s"
  by (simp add: get_friend_list_def Let_def http_get_def)

lemma get_mutual_friends_success:
  assumes "get_friend_list net s (steam_id s) = ((True, your_friends, e1), s1)"
    and "get_friend_list net s1 target = ((True, their_friends, e2), s2)"
  shows "get_mutual_friends net s target =
           ((True, [fid \<leftarrow> their_friends. fid \<notin> set your_friends \<and> fid \<noteq> steam_id s], []), s2)"
proof -
  have "steam_id s1 = steam_id s"
    using get_friend_list_steam_id [of net s "steam_id s"] assms(1) by simp
  moreover have "steam_id s2 = steam_id s1"
    using get_friend_list_steam_id [of net s1 target] assms(2) by simp
  ultimately show ?thesis
    using assms by (simp add: get_mutual_friends_def)
qed

text \<open>
  Claim C2. When both friend lists are fetched,
  \<^verbatim>\<open>get_mutual_friends\<close> returns success, an empty error text and the
  list \<open>out\<close> of those ids of the target's list that are neither in the
  account's own list nor the account's own id, in the order of the target's list:
  \<open>out\<close> is a subsequence of the target's list, its elements are exactly the
  elements of the target's list that are not in the own list and differ from the own id, and
  each of them occurs in \<open>out\<close> as often as in the target's list. The lists are
  arbitrary: they may repeat ids and may overlap.
\<close>

theorem candidates_are_filtered_target_list:
  assumes "get_friend_list net s (steam_id s) = ((True, your_friends, e1), s1)"
    and "get_friend_list net s1 target = ((True, their_friends, e2), s2)"
    and "out = [fid \<leftarrow> their_friends. fid \<notin> set your_friends \<and> fid \<noteq> steam_id s]"
  shows "get_mutual_friends net s target = ((True, out, []), s2) \<and>
         subseq out their_friends \<and>
         set out = set their_friends - set your_friends - {steam_id s} \<and>
         (\<forall>fid \<in> set out. fid \<noteq> steam_id s \<and> fid \<notin> set your_friends) \<and>
         (\<forall>fid. count_list out fid =
            (if fid \<in> set your_friends \<or> fid = steam_id s then 0 else count_list their_friends fid))"
proof -
  have g: "get_mutual_friends net s target = ((True, out, []), s2)"
    unfolding assms(3) using assms(1,2) by (rule get_mutual_friends_success)
  have c: "count_list (filter P xs) x = (if P x then count_list xs x else 0)"
    for P and xs :: "string list" and x
    by (induction xs) auto
  have "subseq out their_friends" unfolding assms(3) by simp
  moreover have "set out = set their_friends - set your_friends - {steam_id s}"
    unfolding assms(3) by auto
  moreover have "\<forall>fid \<in> set out. fid \<noteq> steam_id s \<and> fid \<notin> set your_friends"
    unfolding assms(3) by simp
  moreover have "\<forall>fid. count_list out fid =
            (if fid \<in> set your_friends \<or> fid = steam_id s then 0 else count_list their_friends fid)"
    unfolding assms(3) by (simp add: c)
  ultimately show ?thesis using g by blast
qed

lemma steamids_of_entries:
  "steamids_of (map (\<lambda>i. JObj [(''steamid'', JStr i)]) ids) = Inr ids"
  by (induction ids) (simp_all add: steamid_of_def)

lemma friend_list_outcome_body:
  "friend_list_outcome (Response 200 (Inr (friends_body ids))) = Inr (True, ids, [])"
  by (simp add: friend_list_outcome_def friends_body_def has_nested_obj get_nested_def
      steamids_of_entries)

lemma url_differs:
  "STEAM_API_BASE @ ''/'' @ FRIEND_LIST_ENDPOINT \<noteq> STEAM_API_BASE @ ''/'' @ PLAYER_SUMMARIES_ENDPOINT"
  by (simp add: FRIEND_LIST_ENDPOINT_def PLAYER_SUMMARIES_ENDPOINT_def)

lemma endpoint_differs: "FRIEND_LIST_ENDPOINT \<noteq> PLAYER_SUMMARIES_ENDPOINT"
  by (simp add: FRIEND_LIST_ENDPOINT_def PLAYER_SUMMARIES_ENDPOINT_def)

lemma validate_steam_id_steam_id: "steam_id (snd (validate_steam_id net s t)) = steam_id s"
  by (simp add: validate_steam_id_def Let_def http_get_def)

lemma net_friends_list:
  assumes "map_of table sid = Some ids"
  shows "fst (get_friend_list (net_friends table) s sid) = (True, ids, [])"
  using assms
  by (simp add: friend_list_lookup net_friends_def friend_list_request_def url_differs
      endpoint_differs friend_list_outcome_body)

lemma net_friends_fetch:
  assumes "map_of table sid = Some ids"
  shows "get_friend_list (net_friends table) s sid
           = ((True, ids, []), snd (get_friend_list (net_friends table) s sid))"
  using net_friends_list [OF assms, of s] by (metis prod.collapse)

text \<open>
  Claim C2 at an own list that repeats an id and a target's list that repeats an id,
  overlaps the own list and contains the own id.
\<close>

theorem candidates_are_filtered_target_list_witness:
  "fst (get_mutual_friends (net_friends table1) adder0 ''76561198000000002'')
     = (True, [''76561198000000005'', ''76561198000000004'', ''76561198000000005''], [])"
proof -
  let ?net = "net_friends table1"
  let ?s1 = "snd (get_friend_list ?net adder0 (steam_id adder0))"
  let ?s2 = "snd (get_friend_list ?net ?s1 ''76561198000000002'')"
  have sid: "steam_id adder0 = ''76561198000000001''" by (simp add: adder0_def init_def)
  have f1: "get_friend_list ?net adder0 (steam_id adder0)
              = ((True, [''76561198000000003'', ''76561198000000003''], []), ?s1)"
    by (rule net_friends_fetch) (simp add: sid table1_def)
  have f2: "get_friend_list ?net ?s1 ''76561198000000002''
              = ((True, [''76561198000000005'', ''76561198000000003'', ''76561198000000001'',
                         ''76561198000000004'', ''76561198000000005''], []), ?s2)"
    by (rule net_friends_fetch) (simp add: table1_def)
  have "get_mutual_friends ?net adder0 ''76561198000000002''
          = ((True, [fid \<leftarrow> [''76561198000000005'', ''76561198000000003'', ''76561198000000001'',
                         ''76561198000000004'', ''76561198000000005''].
               fid \<notin> set [''76561198000000003'', ''76561198000000003''] \<and>
               fid \<noteq> steam_id adder0], []), ?s2)"
    using candidates_are_filtered_target_list [OF f1 f2 refl] by (rule conjunct1)
  then show ?thesis unfolding sid by simp
qed

text \<open>
  Claim C8, as amended. Let both friend lists be fetched. When the lists are disjoint and
  the target's list does not contain the account's own id, the candidates are the target's
  list itself; for disjoint lists in general they are the target's list without the
  occurrences of the own id. When the two lists have the same members, there are no
  candidates. A result with no candidates is a success:
  \<^verbatim>\<open>get_mutual_friends\<close> returns it with the flag true and an empty
  error text, and \<^verbatim>\<open>add_mutual_friends\<close> then returns the five
  counters at 0 and no error field.
\<close>

theorem disjoint_and_identical_lists:
  assumes "get_friend_list net s (steam_id s) = ((True, your_friends, e1), s1)"
    and "get_friend_list net s1 target = ((True, their_friends, e2), s2)"
  shows "(set your_friends \<inter> set their_friends = {} \<and> steam_id s \<notin> set their_friends \<longrightarrow>
            get_mutual_friends net s target = ((True, their_friends, []), s2)) \<and>
         (set your_friends \<inter> set their_friends = {} \<longrightarrow>
            get_mutual_friends net s target
              = ((True, [fid \<leftarrow> their_friends. fid \<noteq> steam_id s], []), s2)) \<and>
         (set your_friends = set their_friends \<longrightarrow>
            get_mutual_friends net s target = ((True, [], []), s2)) \<and>
         (fst (fst (validate_steam_id net s0 target')) \<and>
          get_mutual_friends net (snd (validate_steam_id net s0 target')) target'
            = ((True, [], e3), s3) \<longrightarrow>
            add_mutual_friends net s0 target' = (new_results, s3) \<and>
            map_of new_results ''error'' = None)"
proof -
  have g: "get_mutual_friends net s target =
             ((True, [fid \<leftarrow> their_friends. fid \<notin> set your_friends \<and> fid \<noteq> steam_id s], []), s2)"
    using assms by (rule get_mutual_friends_success)
  have a: "set your_friends \<inter> set their_friends = {} \<and> steam_id s \<notin> set their_friends \<longrightarrow>
            get_mutual_friends net s target = ((True, their_friends, []), s2)"
    unfolding g by (auto simp: filter_id_conv)
  have b: "set your_friends \<inter> set their_friends = {} \<longrightarrow>
            get_mutual_friends net s target
              = ((True, [fid \<leftarrow> their_friends. fid \<noteq> steam_id s], []), s2)"
    unfolding g by (auto intro: filter_cong)
  have c: "set your_friends = set their_friends \<longrightarrow>
            get_mutual_friends net s target = ((True, [], []), s2)"
    unfolding g by (auto simp: filter_empty_conv)
  have d: "fst (fst (validate_steam_id net s0 target')) \<and>
          get_mutual_friends net (snd (validate_steam_id net s0 target')) target'
            = ((True, [], e3), s3) \<longrightarrow>
            add_mutual_friends net s0 target' = (new_results, s3) \<and>
            map_of new_results ''error'' = None"
    by (auto simp: add_mutual_friends_def new_results_def split: prod.splits)
  from a b c d show ?thesis by blast
qed

text \<open>
  Claim C8 as stated fails when the target is a friend of the account: the own list and the
  target's list are disjoint, the target's list contains the account's own id, and the
  candidates are the target's list without that id.
\<close>

theorem disjoint_lists_counterexample:
  "fst (get_friend_list (net_friends table2) adder0 ''76561198000000001'')
     = (True, [''76561198000000003''], []) \<and>
   fst (get_friend_list (net_friends table2) adder0 ''76561198000000002'')
     = (True, [''76561198000000001'', ''76561198000000004''], []) \<and>
   fst (get_mutual_friends (net_friends table2) adder0 ''76561198000000002'')
     = (True, [''76561198000000004''], [])"
proof -
  let ?net = "net_friends table2"
  let ?s1 = "snd (get_friend_list ?net adder0 (steam_id adder0))"
  let ?s2 = "snd (get_friend_list ?net ?s1 ''76561198000000002'')"
  have sid: "steam_id adder0 = ''76561198000000001''" by (simp add: adder0_def init_def)
  have m1: "map_of table2 ''76561198000000001'' = Some [''76561198000000003'']"
    by (simp add: table2_def)
  have m2: "map_of table2 ''76561198000000002''
              = Some [''76561198000000001'', ''76561198000000004'']"
    by (simp add: table2_def)
  have f1: "get_friend_list ?net adder0 (steam_id adder0)
              = ((True, [''76561198000000003''], []), ?s1)"
    unfolding sid using m1 by (rule net_friends_fetch)
  have f2: "get_friend_list ?net ?s1 ''76561198000000002''
              = ((True, [''76561198000000001'', ''76561198000000004''], []), ?s2)"
    using m2 by (rule net_friends_fetch)
  have "fst (get_mutual_friends ?net adder0 ''76561198000000002'')
          = (True, [''76561198000000004''], [])"
    by (simp add: get_mutual_friends_success [OF f1 f2] sid)
  then show ?thesis
    by (simp add: net_friends_list [OF m1] net_friends_list [OF m2])
qed

lemma valid_found:
  "fst (fst (validate_steam_id (net_friends table) s ''76561198000000002''))"
proof -
  have f1: "isdigit (strip ''76561198000000002'')" by (simp add: strip_ex isdigit_ex)
  have f2: "length (strip ''76561198000000002'') = 17" by (simp add: strip_ex)
  have n: "has_nested (players_body [JObj []]) ''response'' ''players'' = Inr True"
    by (simp add: players_body_def has_nested_obj)
  have g: "get_nested (players_body [JObj []]) ''response'' ''players'' = Inr (JArr [JObj []])"
    by (simp add: players_body_def get_nested_def)
  show ?thesis
    by (simp add: validate_lookup [OF f1 f2] net_friends_def player_summaries_request_def
        player_summary_outcome_def n g)
qed

text \<open>
  Claim C8, amended, at two lists with the same two members in different orders: there are
  no candidates, and the run returns the fresh counters.
\<close>

theorem disjoint_and_identical_lists_witness:
  "fst (add_mutual_friends (net_friends table3) adder0 ''76561198000000002'') = new_results"
proof -
  let ?net = "net_friends table3"
  let ?t = "''76561198000000002''"
  let ?s0 = "snd (validate_steam_id ?net adder0 ?t)"
  let ?s1 = "snd (get_friend_list ?net ?s0 (steam_id ?s0))"
  let ?s2 = "snd (get_friend_list ?net ?s1 ?t)"
  have f1': "isdigit (strip ?t)" by (simp add: strip_ex isdigit_ex)
  have f2': "length (strip ?t) = 17" by (simp add: strip_ex)
  have sid: "steam_id ?s0 = ''76561198000000001''"
    by (simp add: validate_steam_id_steam_id adder0_def init_def)
  have "map_of table3 ''76561198000000001'' = Some [''76561198000000003'', ''76561198000000004'']"
    by (simp add: table3_def)
  then have m1: "map_of table3 (steam_id ?s0) = Some [''76561198000000003'', ''76561198000000004'']"
    unfolding sid .
  have f1: "get_friend_list ?net ?s0 (steam_id ?s0)
              = ((True, [''76561198000000003'', ''76561198000000004''], []), ?s1)"
    using m1 by (rule net_friends_fetch)
  have f2: "get_friend_list ?net ?s1 ?t
              = ((True, [''76561198000000004'', ''76561198000000003''], []), ?s2)"
    by (rule net_friends_fetch) (simp add: table3_def)
  have same: "set [''76561198000000003'', ''76561198000000004'']
                = set [''76561198000000004'', ''76561198000000003'']"
    by auto
  have "get_mutual_friends ?net ?s0 ?t = ((True, [], []), ?s2)"
    using disjoint_and_identical_lists [OF f1 f2, of adder0 "[]" "[]" ?s2] same by blast
  then have "add_mutual_friends ?net adder0 ?t = (new_results, ?s2)"
    using disjoint_and_identical_lists [OF f1 f2, of adder0 ?t "[]" ?s2] valid_found [of table3 adder0]
    by blast
  then show ?thesis by simp
qed


end
